theory Spec2Isabelle
  imports Main "HOL-Library.Word"
begin

section \<open>Go values used by conn.go\<close>

text \<open>
  \<open>uint32\<close> counters wrap modulo \<open>2 ^ 32\<close>; \<open>int64\<close> and \<open>time.Duration\<close> (an
  \<open>int64\<close> of nanoseconds) are 64-bit words read as two's complement with \<open>sint\<close>.
  A Go \<open>string\<close> and a \<open>[]byte\<close> are both byte sequences, so the conversion
  \<open>[]byte(s)\<close> is the identity on \<open>char list\<close>. A Go \<open>int\<close> that is only passed on
  (\<open>waitSec\<close>, the byte count a transport reports) is an \<open>int\<close>; its conversion
  \<open>uint32(l)\<close> is \<open>word_of_int l\<close>, which truncates.
\<close>

type_synonym uint32 = "32 word"
type_synonym int64 = "64 word"
type_synonym Duration = "64 word"
type_synonym bytes = "char list"

text \<open>
  The errors the code tells apart: the sentinel \<open>websocket.ErrCloseSent\<close>, an error
  that implements \<open>net.Error\<close> (with its \<open>Timeout()\<close> and \<open>Temporary()\<close> answers), a
  \<open>*websocket.CloseError\<close> with its close code and text, and every other error.
\<close>

datatype go_error =
    ErrCloseSent
  | NetError (Timeout: bool) (Temporary: bool)
  | CloseError (Code: int) (Text: string)
  | OtherError string

text \<open>
  A panic unwinds the call: the explicit \<open>panic("...")\<close> of the setters and
  constructors, a method call through a nil interface, and a failed type assertion
  \<open>x.(*net.TCPConn)\<close>.
\<close>

datatype panic = PanicString string | NilDereference | InterfaceConversion

datatype 'a outcome = Panics panic | Returns 'a

subsection \<open>The transports, as the code sees them\<close>

text \<open>
  The byte-stream and the message transport are collaborators outside this file. Every
  call the adapter makes on them, and every warning it logs, is appended to a trace of
  events; what a transport answers is any function of the trace so far and the call.
\<close>

datatype event =
    Conn_Read bytes
  | Conn_Write bytes
  | Conn_SetLinger int
  | Conn_Close
  | WS_SetPingHandler
  | WS_SetPongHandler
  | WS_WriteMessage int bytes
  | WS_ReadMessage
  | WS_Close
  | Log_Warn string go_error

record reply =
  r_n :: int
  r_payload :: bytes
  r_err :: "go_error option"

text \<open>
  A \<open>net.Conn\<close> interface value: whether its dynamic type is \<open>*net.TCPConn\<close>, the
  addresses it reports (\<open>None\<close> is a nil \<open>net.Addr\<close>) and its answers.
\<close>

record net_Conn =
  is_TCPConn :: bool
  LocalAddr :: "string option"
  RemoteAddr :: "string option"
  conn_reply :: "event list \<Rightarrow> event \<Rightarrow> reply"

record websocket_Conn =
  UnderlyingConn :: net_Conn
  ws_reply :: "event list \<Rightarrow> event \<Rightarrow> reply"

text \<open>Constants of gorilla/websocket that the code names.\<close>

definition BinaryMessage :: int where "BinaryMessage = 2"
definition CloseMessage :: int where "CloseMessage = 8"
definition PingMessage :: int where "PingMessage = 9"
definition PongMessage :: int where "PongMessage = 10"
definition CloseGoingAway :: int where "CloseGoingAway = 1001"

text \<open>
  Modelled from the spec: \<open>websocket.IsUnexpectedCloseError\<close> is library code outside
  the repository. An error "indicates an abnormal close (anything other than an
  expected going-away closure)": it is a close error whose code is not among the
  expected ones.
\<close>

definition IsUnexpectedCloseError :: "go_error \<Rightarrow> int list \<Rightarrow> bool" where
  "IsUnexpectedCloseError e expectedCodes =
     (case e of CloseError code txt \<Rightarrow> code \<notin> set expectedCodes | _ \<Rightarrow> False)"

section \<open>getty connection\<close>

record gettyConn =
  ID :: uint32
  padding :: uint32
  readCount :: uint32
  writeCount :: uint32
  readPkgCount :: uint32
  writePkgCount :: uint32
  active :: int64
  rDeadline :: Duration
  wDeadline :: Duration
  local :: string
  peer :: string

text \<open>\<open>atomic.AddUint32(addr, delta)\<close>: the value returned and the value stored.\<close>

definition atomic_AddUint32 :: "uint32 \<Rightarrow> uint32 \<Rightarrow> uint32 \<times> uint32" where
  "atomic_AddUint32 v delta = (v + delta, v + delta)"

text \<open>
  The identity generator: the expression \<open>atomic.AddUint32(&connID, 1)\<close> of both
  constructors, on the package variable \<open>connID\<close> (initially 0).
\<close>

definition connID_next :: "uint32 \<Rightarrow> uint32 \<times> uint32" where
  "connID_next connID = atomic_AddUint32 connID 1"

definition incReadPkgCount :: "'a gettyConn_scheme \<Rightarrow> 'a gettyConn_scheme" where
  "incReadPkgCount this = this\<lparr>readPkgCount := fst (atomic_AddUint32 (readPkgCount this) 1)\<rparr>"

definition incWritePkgCount :: "'a gettyConn_scheme \<Rightarrow> 'a gettyConn_scheme" where
  "incWritePkgCount this = this\<lparr>writePkgCount := fst (atomic_AddUint32 (writePkgCount this) 1)\<rparr>"

text \<open>
  \<open>updateActive\<close> stores \<open>int64(time.Since(launchTime))\<close>; the argument \<open>since\<close>
  is the reading the clock gave when the call evaluated it. \<open>getActive\<close> adds the
  stored duration to \<open>launchTime\<close>; a \<open>time.Time\<close> is an instant in nanoseconds.
\<close>

definition updateActive :: "int64 \<Rightarrow> 'a gettyConn_scheme \<Rightarrow> 'a gettyConn_scheme" where
  "updateActive since this = this\<lparr>active := since\<rparr>"

definition getActive :: "int \<Rightarrow> 'a gettyConn_scheme \<Rightarrow> int" where
  "getActive launchTime this = launchTime + sint (active this)"

text \<open>The base \<open>write\<close> and \<open>close\<close> do nothing; each adapter has its own.\<close>

definition gettyConn_write ::
  "bytes \<Rightarrow> 'a gettyConn_scheme \<Rightarrow> go_error option \<times> 'a gettyConn_scheme" where
  "gettyConn_write p this = (None, this)"

definition gettyConn_close :: "int \<Rightarrow> 'a gettyConn_scheme \<Rightarrow> 'a gettyConn_scheme" where
  "gettyConn_close waitSec this = this"

definition readDeadline :: "'a gettyConn_scheme \<Rightarrow> Duration" where
  "readDeadline this = rDeadline this"

definition setReadDeadline ::
  "Duration \<Rightarrow> 'a gettyConn_scheme \<Rightarrow> unit outcome \<times> 'a gettyConn_scheme" where
  "setReadDeadline d this =
     (if sint d < 1 then (Panics (PanicString ''@rDeadline < 1''), this)
      else
        let this1 = this\<lparr>rDeadline := d\<rparr>
        in (Returns (), if wDeadline this1 = 0 then this1\<lparr>wDeadline := d\<rparr> else this1))"

definition writeDeadline :: "'a gettyConn_scheme \<Rightarrow> Duration" where
  "writeDeadline this = wDeadline this"

definition setWriteDeadline ::
  "Duration \<Rightarrow> 'a gettyConn_scheme \<Rightarrow> unit outcome \<times> 'a gettyConn_scheme" where
  "setWriteDeadline d this =
     (if sint d < 1 then (Panics (PanicString ''@wDeadline < 1''), this)
      else (Returns (), this\<lparr>wDeadline := d\<rparr>))"

section \<open>getty tcp connection\<close>

text \<open>
  The adapter's \<open>conn\<close> field is an interface value; \<open>None\<close> is nil, which is what
  \<open>close\<close> leaves behind. Every method returns its outcome, the adapter after the
  call and the trace after the call.
\<close>

record gettyTCPConn = gettyConn +
  conn :: "net_Conn option"

definition newGettyTCPConn ::
  "net_Conn option \<Rightarrow> uint32 \<Rightarrow> gettyTCPConn outcome \<times> uint32" where
  "newGettyTCPConn c connID =
     (case c of
        None \<Rightarrow> (Panics (PanicString ''newGettyTCPConn(conn):@conn is nil''), connID)
      | Some k \<Rightarrow>
          let localAddr = (case LocalAddr k of Some a \<Rightarrow> a | None \<Rightarrow> '''');
              peerAddr = (case RemoteAddr k of Some a \<Rightarrow> a | None \<Rightarrow> '''');
              (newID, connID') = connID_next connID
          in (Returns \<lparr>ID = newID, padding = 0, readCount = 0, writeCount = 0,
                       readPkgCount = 0, writePkgCount = 0, active = 0,
                       rDeadline = 0, wDeadline = 0,
                       local = localAddr, peer = peerAddr, conn = Some k\<rparr>,
              connID'))"

definition gettyTCPConn_read ::
  "bytes \<Rightarrow> gettyTCPConn \<Rightarrow> event list
     \<Rightarrow> (int \<times> go_error option) outcome \<times> gettyTCPConn \<times> event list" where
  "gettyTCPConn_read p this tr =
     (case conn this of
        None \<Rightarrow> (Panics NilDereference, this, tr)
      | Some c \<Rightarrow>
          let r = conn_reply c tr (Conn_Read p);
              l = r_n r;
              e = r_err r
          in (Returns (l, e),
              this\<lparr>readCount := fst (atomic_AddUint32 (readCount this) (word_of_int l))\<rparr>,
              tr @ [Conn_Read p]))"

definition gettyTCPConn_write ::
  "bytes \<Rightarrow> gettyTCPConn \<Rightarrow> event list
     \<Rightarrow> go_error option outcome \<times> gettyTCPConn \<times> event list" where
  "gettyTCPConn_write p this tr =
     (let this1 =
            this\<lparr>writeCount := fst (atomic_AddUint32 (writeCount this) (of_nat (length p)))\<rparr>
      in case conn this1 of
           None \<Rightarrow> (Panics NilDereference, this1, tr)
         | Some c \<Rightarrow>
             (Returns (r_err (conn_reply c tr (Conn_Write p))), this1, tr @ [Conn_Write p]))"

definition gettyTCPConn_close ::
  "int \<Rightarrow> gettyTCPConn \<Rightarrow> event list \<Rightarrow> unit outcome \<times> gettyTCPConn \<times> event list" where
  "gettyTCPConn_close waitSec this tr =
     (case conn this of
        None \<Rightarrow> (Returns (), this, tr)
      | Some c \<Rightarrow>
          if is_TCPConn c
          then (Returns (), this\<lparr>conn := None\<rparr>, tr @ [Conn_SetLinger waitSec, Conn_Close])
          else (Panics InterfaceConversion, this, tr))"

section \<open>getty websocket connection\<close>

text \<open>
  The adapter's \<open>conn\<close> field is a \<open>*websocket.Conn\<close>. The constructor refuses nil and
  no method assigns the field, so the adapter holds the connection itself.
\<close>

record gettyWSConn = gettyConn +
  ws_conn :: websocket_Conn

definition newGettyWSConn ::
  "websocket_Conn option \<Rightarrow> uint32 \<Rightarrow> event list
     \<Rightarrow> gettyWSConn outcome \<times> uint32 \<times> event list" where
  "newGettyWSConn c connID tr =
     (case c of
        None \<Rightarrow> (Panics (PanicString ''newGettyWSConn(conn):@conn is nil''), connID, tr)
      | Some k \<Rightarrow>
          let localAddr = (case LocalAddr (UnderlyingConn k) of Some a \<Rightarrow> a | None \<Rightarrow> '''');
              peerAddr = (case RemoteAddr (UnderlyingConn k) of Some a \<Rightarrow> a | None \<Rightarrow> '''');
              (newID, connID') = connID_next connID
          in (Returns \<lparr>ID = newID, padding = 0, readCount = 0, writeCount = 0,
                       readPkgCount = 0, writePkgCount = 0, active = 0,
                       rDeadline = 0, wDeadline = 0,
                       local = localAddr, peer = peerAddr, ws_conn = k\<rparr>,
              connID', tr @ [WS_SetPingHandler, WS_SetPongHandler]))"

definition gettyWSConn_handlePing ::
  "string \<Rightarrow> int64 \<Rightarrow> gettyWSConn \<Rightarrow> event list
     \<Rightarrow> go_error option outcome \<times> gettyWSConn \<times> event list" where
  "gettyWSConn_handlePing message since this tr =
     (let err0 = r_err (ws_reply (ws_conn this) tr (WS_WriteMessage PongMessage message));
          tr1 = tr @ [WS_WriteMessage PongMessage message];
          err = (if err0 = Some ErrCloseSent then None
                 else case err0 of
                        Some (NetError tmo tmp) \<Rightarrow> if tmp then None else err0
                      | _ \<Rightarrow> err0)
      in if err = None then (Returns err, updateActive since this, tr1)
         else (Returns err, this, tr1))"

definition gettyWSConn_handlePong ::
  "string \<Rightarrow> int64 \<Rightarrow> gettyWSConn \<Rightarrow> event list
     \<Rightarrow> go_error option outcome \<times> gettyWSConn \<times> event list" where
  "gettyWSConn_handlePong message since this tr = (Returns None, updateActive since this, tr)"

definition gettyWSConn_read ::
  "gettyWSConn \<Rightarrow> event list
     \<Rightarrow> (bytes \<times> go_error option) outcome \<times> gettyWSConn \<times> event list" where
  "gettyWSConn_read this tr =
     (let r = ws_reply (ws_conn this) tr WS_ReadMessage;
          b = r_payload r;
          e = r_err r;
          tr1 = tr @ [WS_ReadMessage]
      in case e of
           None \<Rightarrow>
             (Returns (b, e),
              this\<lparr>readPkgCount := fst (atomic_AddUint32 (readPkgCount this) 1)\<rparr>, tr1)
         | Some err \<Rightarrow>
             (Returns (b, e), this,
              if IsUnexpectedCloseError err [CloseGoingAway]
              then tr1 @ [Log_Warn ''websocket unexpected close error: %v'' err]
              else tr1))"

definition gettyWSConn_write ::
  "bytes \<Rightarrow> gettyWSConn \<Rightarrow> event list
     \<Rightarrow> go_error option outcome \<times> gettyWSConn \<times> event list" where
  "gettyWSConn_write p this tr =
     (let this1 =
            this\<lparr>writeCount := fst (atomic_AddUint32 (writeCount this) (of_nat (length p)))\<rparr>
      in (Returns (r_err (ws_reply (ws_conn this1) tr (WS_WriteMessage BinaryMessage p))),
          this1, tr @ [WS_WriteMessage BinaryMessage p]))"

definition gettyWSConn_writePing ::
  "gettyWSConn \<Rightarrow> event list \<Rightarrow> go_error option outcome \<times> gettyWSConn \<times> event list" where
  "gettyWSConn_writePing this tr =
     (Returns (r_err (ws_reply (ws_conn this) tr (WS_WriteMessage PingMessage []))),
      this, tr @ [WS_WriteMessage PingMessage []])"

definition gettyWSConn_close ::
  "int \<Rightarrow> gettyWSConn \<Rightarrow> event list \<Rightarrow> unit outcome \<times> gettyWSConn \<times> event list" where
  "gettyWSConn_close waitSec this tr =
     (let tr1 = tr @ [WS_WriteMessage CloseMessage ''bye-bye!!!'']
      in if is_TCPConn (UnderlyingConn (ws_conn this))
         then (Returns (), this, tr1 @ [Conn_SetLinger waitSec, WS_Close])
         else (Panics InterfaceConversion, this, tr1))"

section \<open>Call sequences and sample connections\<close>

text \<open>
  The identities handed out by the first \<open>n\<close> calls of the generator, in call order,
  starting from the counter value \<open>connID\<close>.
\<close>

fun next_calls :: "nat \<Rightarrow> uint32 \<Rightarrow> uint32 list" where
  "next_calls 0 connID = []"
| "next_calls (Suc n) connID =
     (let (newID, connID') = connID_next connID in newID # next_calls n connID')"

text \<open>
  \<open>updateActive\<close> is two steps, and other tasks can run between them: the task
  evaluates \<open>int64(time.Since(launchTime))\<close>, then it stores the reading it holds with
  \<open>atomic.StoreInt64\<close>. \<open>getActive\<close> is one atomic load. A schedule lists the steps
  of all tasks in the order they take effect; a task is a number, and a clock step
  carries the reading the clock gave. \<open>active_run\<close> runs a schedule and returns what
  the loads observed, in order; \<open>pending\<close> holds the reading of each task that has
  read the clock and not yet stored. A store by a task that holds no reading is a
  step of no call and does nothing.
\<close>

datatype active_step =
    Clock_Since nat int64
  | Atomic_Store nat
  | Atomic_Load

fun active_run ::
  "int \<Rightarrow> active_step list \<Rightarrow> (nat \<Rightarrow> int64 option) \<Rightarrow> 'a gettyConn_scheme \<Rightarrow> int list" where
  "active_run launchTime [] pending this = []"
| "active_run launchTime (Clock_Since t r # ss) pending this =
     active_run launchTime ss (pending(t := Some r)) this"
| "active_run launchTime (Atomic_Store t # ss) pending this =
     (case pending t of
        None \<Rightarrow> active_run launchTime ss pending this
      | Some r \<Rightarrow> active_run launchTime ss (pending(t := None)) (updateActive r this))"
| "active_run launchTime (Atomic_Load # ss) pending this =
     getActive launchTime this # active_run launchTime ss pending this"

text \<open>No task holds a reading: no call is in progress.\<close>

definition no_pending :: "nat \<Rightarrow> int64 option" where
  "no_pending t = None"

text \<open>The readings the clock gave along a schedule, in the order it gave them.\<close>

fun clock_readings :: "active_step list \<Rightarrow> int64 list" where
  "clock_readings [] = []"
| "clock_readings (Clock_Since t r # ss) = r # clock_readings ss"
| "clock_readings (Atomic_Store t # ss) = clock_readings ss"
| "clock_readings (Atomic_Load # ss) = clock_readings ss"

text \<open>
  The \<open>updateActive\<close> calls of a schedule do not overlap: no task reads the clock
  while another call is between its clock reading and its store. \<open>cur\<close> is the task
  in the middle of a call, if any. Loads may fall anywhere.
\<close>

fun nonoverlapping :: "nat option \<Rightarrow> active_step list \<Rightarrow> bool" where
  "nonoverlapping cur [] = True"
| "nonoverlapping cur (Clock_Since t r # ss) = (cur = None \<and> nonoverlapping (Some t) ss)"
| "nonoverlapping cur (Atomic_Store t # ss) = (cur = Some t \<and> nonoverlapping None ss)"
| "nonoverlapping cur (Atomic_Load # ss) = nonoverlapping cur ss"

text \<open>
  The invariant of a run without overlap: the stored reading, then the reading held
  by the call in progress (if any), then the readings the clock has still to give,
  never decrease.
\<close>

definition held ::
  "nat option \<Rightarrow> (nat \<Rightarrow> int64 option) \<Rightarrow> 'a gettyConn_scheme \<Rightarrow> int64 list \<Rightarrow> bool" where
  "held cur pending this rs =
     (case cur of
        None \<Rightarrow> sorted (sint (active this) # map sint rs)
      | Some t \<Rightarrow>
          (case pending t of
             None \<Rightarrow> False
           | Some r \<Rightarrow> sint (active this) \<le> sint r \<and> sorted (sint r # map sint rs)))"

text \<open>A connection state as the constructors leave it, with identity 1.\<close>

definition fresh :: gettyConn where
  "fresh = \<lparr>ID = 1, padding = 0, readCount = 0, writeCount = 0,
            readPkgCount = 0, writePkgCount = 0, active = 0,
            rDeadline = 0, wDeadline = 0, local = '''', peer = ''''\<rparr>"

text \<open>
  A sequence of \<open>read\<close> and \<open>write\<close> calls on one stream adapter, each with its
  buffer or payload, run one after the other whatever each call's outcome.
\<close>

datatype stream_call = Call_read bytes | Call_write bytes

fun stream_calls ::
  "stream_call list \<Rightarrow> gettyTCPConn \<Rightarrow> event list \<Rightarrow> gettyTCPConn \<times> event list" where
  "stream_calls [] this tr = (this, tr)"
| "stream_calls (Call_read p # cs) this tr =
     (case gettyTCPConn_read p this tr of (out, this', tr') \<Rightarrow> stream_calls cs this' tr')"
| "stream_calls (Call_write p # cs) this tr =
     (case gettyTCPConn_write p this tr of (out, this', tr') \<Rightarrow> stream_calls cs this' tr')"

text \<open>
  A sequence of \<open>close\<close> calls on one stream adapter, one linger value per call: the
  outcome of every call, the adapter and the trace at the end.
\<close>

fun close_calls ::
  "int list \<Rightarrow> gettyTCPConn \<Rightarrow> event list
     \<Rightarrow> unit outcome list \<times> gettyTCPConn \<times> event list" where
  "close_calls [] this tr = ([], this, tr)"
| "close_calls (waitSec # rest) this tr =
     (case gettyTCPConn_close waitSec this tr of
        (out, this', tr') \<Rightarrow>
          (case close_calls rest this' tr' of
             (outs, this'', tr'') \<Rightarrow> (out # outs, this'', tr'')))"

text \<open>
  Sample transports: one that answers every call with the same count, payload and
  error; a TCP socket and a Unix-domain socket (a \<open>net.Conn\<close> that is not a
  \<open>*net.TCPConn\<close>); a websocket connection over either.
\<close>

definition answering ::
  "int \<Rightarrow> bytes \<Rightarrow> go_error option \<Rightarrow> event list \<Rightarrow> event \<Rightarrow> reply" where
  "answering n b e tr ev = \<lparr>r_n = n, r_payload = b, r_err = e\<rparr>"

definition tcp_sock :: "int \<Rightarrow> go_error option \<Rightarrow> net_Conn" where
  "tcp_sock n e = \<lparr>is_TCPConn = True, LocalAddr = Some ''10.0.0.1:8000'',
                   RemoteAddr = Some ''10.0.0.2:4000'', conn_reply = answering n [] e\<rparr>"

definition unix_sock :: net_Conn where
  "unix_sock = \<lparr>is_TCPConn = False, LocalAddr = Some ''/tmp/getty.sock'',
                RemoteAddr = None, conn_reply = answering 0 [] None\<rparr>"

definition ws_sock :: "net_Conn \<Rightarrow> bytes \<Rightarrow> go_error option \<Rightarrow> websocket_Conn" where
  "ws_sock k b e = \<lparr>UnderlyingConn = k, ws_reply = answering 2 b e\<rparr>"

text \<open>
  The adapters the two constructors build over a handle when the counter \<open>connID\<close>
  is 0 (lemmas \<open>newGettyTCPConn_first\<close> and \<open>newGettyWSConn_first\<close> below).
\<close>

definition stream_adapter :: "net_Conn \<Rightarrow> gettyTCPConn" where
  "stream_adapter k =
     \<lparr>ID = 1, padding = 0, readCount = 0, writeCount = 0,
      readPkgCount = 0, writePkgCount = 0, active = 0, rDeadline = 0, wDeadline = 0,
      local = (case LocalAddr k of Some a \<Rightarrow> a | None \<Rightarrow> ''''),
      peer = (case RemoteAddr k of Some a \<Rightarrow> a | None \<Rightarrow> ''''),
      conn = Some k\<rparr>"

definition message_adapter :: "websocket_Conn \<Rightarrow> gettyWSConn" where
  "message_adapter k =
     \<lparr>ID = 1, padding = 0, readCount = 0, writeCount = 0,
      readPkgCount = 0, writePkgCount = 0, active = 0, rDeadline = 0, wDeadline = 0,
      local = (case LocalAddr (UnderlyingConn k) of Some a \<Rightarrow> a | None \<Rightarrow> ''''),
      peer = (case RemoteAddr (UnderlyingConn k) of Some a \<Rightarrow> a | None \<Rightarrow> ''''),
      ws_conn = k\<rparr>"

section \<open>Properties\<close>

lemmas sample_defs =
  answering_def tcp_sock_def unix_sock_def ws_sock_def stream_adapter_def
  message_adapter_def

lemma newGettyTCPConn_first:
  "newGettyTCPConn (Some k) 0 = (Returns (stream_adapter k), 1)"
  by (simp add: newGettyTCPConn_def stream_adapter_def connID_next_def atomic_AddUint32_def)

lemma newGettyWSConn_first:
  "newGettyWSConn (Some k) 0 tr
     = (Returns (message_adapter k), 1, tr @ [WS_SetPingHandler, WS_SetPongHandler])"
  by (simp add: newGettyWSConn_def message_adapter_def connID_next_def atomic_AddUint32_def)

subsection \<open>Identity generator\<close>

lemma next_calls_eq:
  "next_calls n c = map (\<lambda>k. c + of_nat (Suc k)) [0..<n]"
proof (induction n arbitrary: c)
  case 0
  show ?case by simp
next
  case (Suc n)
  have "[0..<Suc n] = 0 # map Suc [0..<n]"
    by (simp add: upt_conv_Cons map_Suc_upt del: upt_Suc)
  then show ?case
    by (simp add: connID_next_def atomic_AddUint32_def Suc.IH add.assoc comp_def del: upt_Suc)
qed

lemma unat_next_calls:
  assumes "n < 2 ^ 32"
  shows "map unat (next_calls n 0) = [1..<Suc n]"
proof -
  have "unat (of_nat (Suc k) :: uint32) = Suc k" if "k < n" for k
  proof -
    have "Suc k < 2 ^ 32" using that assms by simp
    then show ?thesis by (intro of_nat_inverse [OF refl]) simp
  qed
  then have "map unat (next_calls n 0) = map Suc [0..<n]"
    by (simp add: next_calls_eq del: of_nat_Suc)
  then show ?thesis by (simp add: map_Suc_upt)
qed

text \<open>
  Both constructors draw the adapter's identity from the generator and store the
  advanced counter.
\<close>

lemma newGettyTCPConn_ID:
  "newGettyTCPConn (Some k) connID = (Returns a, connID')
     \<Longrightarrow> ID a = fst (connID_next connID) \<and> connID' = snd (connID_next connID)"
  by (auto simp: newGettyTCPConn_def Let_def split: prod.splits)

lemma newGettyWSConn_ID:
  "newGettyWSConn (Some k) connID tr = (Returns a, connID', tr')
     \<Longrightarrow> ID a = fst (connID_next connID) \<and> connID' = snd (connID_next connID)"
  by (auto simp: newGettyWSConn_def Let_def split: prod.splits)

text \<open>
  C1 (as amended). The counter is a \<open>uint32\<close>. For any number \<open>n < 2 ^ 32\<close> of
  calls from the initial counter 0, taken in the order in which the atomic additions
  take effect, the identities returned are exactly 1, 2, ..., n: they are strictly
  increasing, pairwise distinct, and as a set the contiguous range from 1 to n.
\<close>

theorem connID_ids_below_wrap:
  assumes "n < 2 ^ 32"
  shows "map unat (next_calls n 0) = [1..<Suc n]
       \<and> sorted_wrt (<) (next_calls n 0)
       \<and> distinct (next_calls n 0)
       \<and> unat ` set (next_calls n 0) = {1..n}"
proof -
  have m: "map unat (next_calls n 0) = [1..<Suc n]"
    by (rule unat_next_calls [OF assms])
  have "sorted_wrt (<) (map unat (next_calls n 0))"
    unfolding m by (simp del: upt_Suc)
  moreover have "(<) = (\<lambda>x y :: uint32. unat x < unat y)"
    by (intro ext) (rule word_less_nat_alt)
  ultimately have s: "sorted_wrt (<) (next_calls n 0)"
    by (simp add: sorted_wrt_map)
  have "distinct (map unat (next_calls n 0))"
    unfolding m by (simp del: upt_Suc)
  then have d: "distinct (next_calls n 0)"
    by (simp add: distinct_map)
  have "set (map unat (next_calls n 0)) = {1..n}"
    unfolding m by (auto simp del: upt_Suc)
  then have r: "unat ` set (next_calls n 0) = {1..n}"
    by simp
  from m s d r show ?thesis by blast
qed

theorem connID_ids_below_wrap_witness:
  "next_calls 3 0 = [1, 2, 3] \<and> sorted_wrt (<) (next_calls 3 0) \<and> distinct (next_calls 3 0)"
proof -
  have h: "(3::nat) < 2 ^ 32" by simp
  have n: "next_calls 3 0 = [1, 2, 3]"
    by (simp add: numeral_3_eq_3 connID_next_def atomic_AddUint32_def)
  from connID_ids_below_wrap [OF h] n show ?thesis by blast
qed

text \<open>
  C1 as stated fails: the call number \<open>2 ^ 32\<close> returns 0, which is below the
  4294967295 returned just before it, and the call after that returns 1 again, the
  identity of the first call.
\<close>

theorem connID_wraps_counterexample:
  "next_calls 4294967297 0 ! 0 = 1
 \<and> next_calls 4294967297 0 ! 4294967294 = 4294967295
 \<and> next_calls 4294967297 0 ! 4294967295 = 0
 \<and> next_calls 4294967297 0 ! 4294967296 = 1"
proof -
  have nth: "next_calls n 0 ! i = of_nat i + 1" if "i < n" for i n
    using that by (simp add: next_calls_eq del: upt_Suc)
  show ?thesis by (simp add: nth)
qed

subsection \<open>Deadlines\<close>

text \<open>
  C4. With a strictly positive duration \<open>d\<close>: when \<open>wDeadline\<close> is unset (zero),
  \<open>setReadDeadline d\<close> sets both deadlines to \<open>d\<close>; when \<open>wDeadline\<close> is already
  set, \<open>setReadDeadline d\<close> sets \<open>rDeadline\<close> only; \<open>setWriteDeadline d\<close> sets
  \<open>wDeadline\<close> only and leaves \<open>rDeadline\<close> as it was.
\<close>

theorem setDeadline_backfill:
  assumes "0 < sint d"
  shows "(wDeadline this = 0 \<longrightarrow>
            setReadDeadline d this = (Returns (), this\<lparr>rDeadline := d, wDeadline := d\<rparr>))
       \<and> (wDeadline this \<noteq> 0 \<longrightarrow>
            setReadDeadline d this = (Returns (), this\<lparr>rDeadline := d\<rparr>))
       \<and> setWriteDeadline d this = (Returns (), this\<lparr>wDeadline := d\<rparr>)
       \<and> rDeadline (snd (setWriteDeadline d this)) = rDeadline this"
  using assms by (simp add: setReadDeadline_def setWriteDeadline_def Let_def)

text \<open>
  The spec's example: 5 s as read deadline on a fresh state gives both deadlines 5 s;
  2 s as write deadline afterwards leaves the read deadline at 5 s; a later read
  deadline of 7 s leaves the write deadline at 2 s.
\<close>

theorem setDeadline_backfill_witness:
  "0 < sint (5000000000 :: Duration)
 \<and> wDeadline fresh = 0
 \<and> setReadDeadline 5000000000 fresh
     = (Returns (), fresh\<lparr>rDeadline := 5000000000, wDeadline := 5000000000\<rparr>)
 \<and> setWriteDeadline 2000000000 (fresh\<lparr>rDeadline := 5000000000, wDeadline := 5000000000\<rparr>)
     = (Returns (), fresh\<lparr>rDeadline := 5000000000, wDeadline := 2000000000\<rparr>)
 \<and> wDeadline (fresh\<lparr>rDeadline := 5000000000, wDeadline := 2000000000\<rparr>) \<noteq> 0
 \<and> setReadDeadline 7000000000 (fresh\<lparr>rDeadline := 5000000000, wDeadline := 2000000000\<rparr>)
     = (Returns (), fresh\<lparr>rDeadline := 7000000000, wDeadline := 2000000000\<rparr>)"
proof -
  have h5: "0 < sint (5000000000 :: Duration)" by simp
  have h2: "0 < sint (2000000000 :: Duration)" by simp
  have h7: "0 < sint (7000000000 :: Duration)" by simp
  have w0: "wDeadline fresh = 0" by (simp add: fresh_def)
  show ?thesis
    using h5 w0
      setDeadline_backfill [OF h5, of fresh]
      setDeadline_backfill [OF h2, of "fresh\<lparr>rDeadline := 5000000000, wDeadline := 5000000000\<rparr>"]
      setDeadline_backfill [OF h7, of "fresh\<lparr>rDeadline := 5000000000, wDeadline := 2000000000\<rparr>"]
    by simp
qed

text \<open>
  C5. A duration that is not strictly positive makes \<open>setReadDeadline\<close> and
  \<open>setWriteDeadline\<close> panic (the fatal invalid-argument condition) and leaves the
  whole state, so both stored deadlines, unchanged; a strictly positive duration makes
  both return.
\<close>

theorem setDeadline_invalid:
  "(sint d \<le> 0 \<longrightarrow>
      setReadDeadline d this = (Panics (PanicString ''@rDeadline < 1''), this)
    \<and> setWriteDeadline d this = (Panics (PanicString ''@wDeadline < 1''), this))
 \<and> (0 < sint d \<longrightarrow>
      fst (setReadDeadline d this) = Returns ()
    \<and> fst (setWriteDeadline d this) = Returns ())"
  by (simp add: setReadDeadline_def setWriteDeadline_def Let_def)

theorem setDeadline_invalid_witness:
  "sint (0 :: Duration) \<le> 0
 \<and> setReadDeadline 0 (fresh\<lparr>rDeadline := 5, wDeadline := 2\<rparr>)
     = (Panics (PanicString ''@rDeadline < 1''), fresh\<lparr>rDeadline := 5, wDeadline := 2\<rparr>)
 \<and> sint (- 3 :: Duration) \<le> 0
 \<and> setWriteDeadline (- 3) (fresh\<lparr>rDeadline := 5, wDeadline := 2\<rparr>)
     = (Panics (PanicString ''@wDeadline < 1''), fresh\<lparr>rDeadline := 5, wDeadline := 2\<rparr>)
 \<and> 0 < sint (1 :: Duration)
 \<and> fst (setReadDeadline 1 fresh) = Returns ()
 \<and> fst (setWriteDeadline 1 fresh) = Returns ()"
proof -
  have z: "sint (0 :: Duration) \<le> 0" by simp
  have m: "sint (- 3 :: Duration) \<le> 0" by simp
  have p: "0 < sint (1 :: Duration)" by simp
  show ?thesis
    using z m p
      setDeadline_invalid [of 0 "fresh\<lparr>rDeadline := 5, wDeadline := 2\<rparr>"]
      setDeadline_invalid [of "- 3" "fresh\<lparr>rDeadline := 5, wDeadline := 2\<rparr>"]
      setDeadline_invalid [of 1 fresh]
    by simp
qed

subsection \<open>Activity\<close>

lemma active_run_nonoverlapping:
  "nonoverlapping cur ss \<Longrightarrow> held cur pending this (clock_readings ss)
     \<Longrightarrow> sorted (active_run launchTime ss pending this)
       \<and> (\<forall>x \<in> set (active_run launchTime ss pending this). getActive launchTime this \<le> x)"
proof (induction ss arbitrary: cur pending this)
  case Nil
  show ?case by simp
next
  case (Cons s ss)
  show ?case
  proof (cases s)
    case (Clock_Since t r)
    from Cons.prems(1) Clock_Since have c: "cur = None" and n: "nonoverlapping (Some t) ss"
      by simp_all
    from Cons.prems(2) Clock_Since c
    have h: "held (Some t) (pending(t := Some r)) this (clock_readings ss)"
      by (simp add: held_def)
    have e: "active_run launchTime (s # ss) pending this
               = active_run launchTime ss (pending(t := Some r)) this"
      by (simp only: Clock_Since active_run.simps)
    from Cons.IH [OF n h] show ?thesis unfolding e by blast
  next
    case (Atomic_Store t)
    from Cons.prems(1) Atomic_Store have c: "cur = Some t" and n: "nonoverlapping None ss"
      by simp_all
    from Cons.prems(2) Atomic_Store c obtain r where
      p: "pending t = Some r" and le: "sint (active this) \<le> sint r"
      and so: "sorted (sint r # map sint (clock_readings ss))"
      by (auto simp: held_def split: option.splits)
    have h: "held None (pending(t := None)) (updateActive r this) (clock_readings ss)"
      using so by (simp add: held_def updateActive_def)
    have g: "getActive launchTime this \<le> getActive launchTime (updateActive r this)"
      using le by (simp add: getActive_def updateActive_def)
    have e: "active_run launchTime (s # ss) pending this
               = active_run launchTime ss (pending(t := None)) (updateActive r this)"
      by (simp only: Atomic_Store active_run.simps p option.case)
    from Cons.IH [OF n h] g show ?thesis unfolding e by fastforce
  next
    case Atomic_Load
    from Cons.prems(1) Atomic_Load have n: "nonoverlapping cur ss" by simp
    from Cons.prems(2) Atomic_Load have h: "held cur pending this (clock_readings ss)" by simp
    have e: "active_run launchTime (s # ss) pending this
               = getActive launchTime this # active_run launchTime ss pending this"
      by (simp only: Atomic_Load active_run.simps)
    from Cons.IH [OF n h] show ?thesis unfolding e by simp
  qed
qed

text \<open>
  C9 (as amended). Take an adapter as its constructor leaves it (stored activity 0)
  and any schedule of \<open>updateActive\<close> and \<open>getActive\<close> calls, by any number of
  tasks, in which the clock's elapsed-since-launch readings never decrease and no
  two \<open>updateActive\<close> calls overlap. Then the values \<open>getActive\<close> returns never
  decrease: each is at least every value returned before it.
\<close>

theorem getActive_monotone:
  assumes "active this = 0"
    and "sorted (0 # map sint (clock_readings ss))"
    and "nonoverlapping None ss"
  shows "sorted (active_run launchTime ss no_pending this)"
proof -
  have "held None no_pending this (clock_readings ss)"
    using assms(1,2) by (simp add: held_def)
  from active_run_nonoverlapping [OF assms(3) this] show ?thesis by blast
qed

theorem getActive_monotone_witness:
  "active fresh = 0
 \<and> sorted (0 # map sint (clock_readings
      [Atomic_Load, Clock_Since 1 10, Atomic_Load, Atomic_Store 1, Atomic_Load,
       Clock_Since 2 10, Atomic_Store 2, Atomic_Load,
       Clock_Since 1 25, Atomic_Store 1, Atomic_Load]))
 \<and> nonoverlapping None
      [Atomic_Load, Clock_Since 1 10, Atomic_Load, Atomic_Store 1, Atomic_Load,
       Clock_Since 2 10, Atomic_Store 2, Atomic_Load,
       Clock_Since 1 25, Atomic_Store 1, Atomic_Load]
 \<and> active_run 1000
      [Atomic_Load, Clock_Since 1 10, Atomic_Load, Atomic_Store 1, Atomic_Load,
       Clock_Since 2 10, Atomic_Store 2, Atomic_Load,
       Clock_Since 1 25, Atomic_Store 1, Atomic_Load] no_pending fresh
     = [1000, 1000, 1010, 1010, 1025]
 \<and> sorted (active_run 1000
      [Atomic_Load, Clock_Since 1 10, Atomic_Load, Atomic_Store 1, Atomic_Load,
       Clock_Since 2 10, Atomic_Store 2, Atomic_Load,
       Clock_Since 1 25, Atomic_Store 1, Atomic_Load] no_pending fresh)"
proof -
  let ?ss = "[Atomic_Load, Clock_Since 1 10, Atomic_Load, Atomic_Store 1, Atomic_Load,
       Clock_Since 2 10, Atomic_Store 2, Atomic_Load,
       Clock_Since 1 25, Atomic_Store 1, Atomic_Load]"
  have a: "active fresh = 0" by (simp add: fresh_def)
  have c: "sorted (0 # map sint (clock_readings ?ss))" by simp
  have n: "nonoverlapping None ?ss" by simp
  have v: "active_run 1000 ?ss no_pending fresh = [1000, 1000, 1010, 1010, 1025]"
    by (simp add: fresh_def getActive_def updateActive_def no_pending_def)
  from a c n v getActive_monotone [OF a c n, of 1000] show ?thesis by blast
qed

text \<open>
  C9 as stated fails when two \<open>updateActive\<close> calls overlap. Task 1 reads the clock
  at 10, task 2 reads it at 20 and stores, a load observes \<open>launchTime + 20\<close>, then
  task 1 stores its older reading and the next load observes \<open>launchTime + 10\<close>. The
  clock's readings 10, 20 never decreased; the value of \<open>getActive\<close> did.
\<close>

theorem getActive_overtaken_counterexample:
  "sorted (0 # map sint (clock_readings
      [Clock_Since 1 10, Clock_Since 2 20, Atomic_Store 2, Atomic_Load,
       Atomic_Store 1, Atomic_Load]))
 \<and> active_run 1000
      [Clock_Since 1 10, Clock_Since 2 20, Atomic_Store 2, Atomic_Load,
       Atomic_Store 1, Atomic_Load] no_pending fresh
     = [1020, 1010]
 \<and> \<not> sorted (active_run 1000
      [Clock_Since 1 10, Clock_Since 2 20, Atomic_Store 2, Atomic_Load,
       Atomic_Store 1, Atomic_Load] no_pending fresh)"
  by (simp add: fresh_def getActive_def updateActive_def no_pending_def)

subsection \<open>Keepalive: the ping handler\<close>

text \<open>
  C2. \<open>handlePing\<close> with payload \<open>m\<close> always makes exactly one transport call, a
  pong frame carrying \<open>m\<close>. When that send succeeds, or fails with
  \<open>ErrCloseSent\<close>, or fails with a \<open>net.Error\<close> that is temporary, the handler
  returns nil and the adapter is the one \<open>updateActive\<close> leaves. When it fails with
  any other error \<open>e\<close>, the handler returns \<open>e\<close> and the adapter is unchanged, so
  \<open>updateActive\<close> was not called.
\<close>

theorem handlePing_outcomes:
  "snd (snd (gettyWSConn_handlePing m since this tr)) = tr @ [WS_WriteMessage PongMessage m]
 \<and> (r_err (ws_reply (ws_conn this) tr (WS_WriteMessage PongMessage m)) = None
      \<or> r_err (ws_reply (ws_conn this) tr (WS_WriteMessage PongMessage m)) = Some ErrCloseSent
      \<or> r_err (ws_reply (ws_conn this) tr (WS_WriteMessage PongMessage m))
           = Some (NetError tmo True)
     \<longrightarrow> gettyWSConn_handlePing m since this tr
           = (Returns None, updateActive since this, tr @ [WS_WriteMessage PongMessage m]))
 \<and> (r_err (ws_reply (ws_conn this) tr (WS_WriteMessage PongMessage m)) = Some e
      \<and> e \<noteq> ErrCloseSent \<and> (\<forall>tmo. e \<noteq> NetError tmo True)
     \<longrightarrow> gettyWSConn_handlePing m since this tr
           = (Returns (Some e), this, tr @ [WS_WriteMessage PongMessage m]))"
proof -
  let ?e = "r_err (ws_reply (ws_conn this) tr (WS_WriteMessage PongMessage m))"
  have t: "snd (snd (gettyWSConn_handlePing m since this tr))
             = tr @ [WS_WriteMessage PongMessage m]"
    by (simp add: gettyWSConn_handlePing_def Let_def)
  have b: "gettyWSConn_handlePing m since this tr
             = (Returns None, updateActive since this, tr @ [WS_WriteMessage PongMessage m])"
    if "?e = None \<or> ?e = Some ErrCloseSent \<or> ?e = Some (NetError tmo True)"
    using that by (auto simp: gettyWSConn_handlePing_def Let_def)
  have h: "gettyWSConn_handlePing m since this tr
             = (Returns (Some e), this, tr @ [WS_WriteMessage PongMessage m])"
    if "?e = Some e" "e \<noteq> ErrCloseSent" "\<forall>tmo. e \<noteq> NetError tmo True"
    using that by (cases e) (auto simp: gettyWSConn_handlePing_def Let_def)
  from t b h show ?thesis by blast
qed

theorem handlePing_outcomes_witness:
  "gettyWSConn_handlePing ''hello'' 77 (message_adapter (ws_sock (tcp_sock 0 None) [] None)) []
     = (Returns None,
        updateActive 77 (message_adapter (ws_sock (tcp_sock 0 None) [] None)),
        [WS_WriteMessage PongMessage ''hello''])
 \<and> gettyWSConn_handlePing ''hello'' 77
       (message_adapter (ws_sock (tcp_sock 0 None) [] (Some ErrCloseSent))) []
     = (Returns None,
        updateActive 77 (message_adapter (ws_sock (tcp_sock 0 None) [] (Some ErrCloseSent))),
        [WS_WriteMessage PongMessage ''hello''])
 \<and> gettyWSConn_handlePing ''hello'' 77
       (message_adapter (ws_sock (tcp_sock 0 None) [] (Some (NetError True True)))) []
     = (Returns None,
        updateActive 77
          (message_adapter (ws_sock (tcp_sock 0 None) [] (Some (NetError True True)))),
        [WS_WriteMessage PongMessage ''hello''])
 \<and> gettyWSConn_handlePing ''hello'' 77
       (message_adapter (ws_sock (tcp_sock 0 None) [] (Some (NetError True False)))) []
     = (Returns (Some (NetError True False)),
        message_adapter (ws_sock (tcp_sock 0 None) [] (Some (NetError True False))),
        [WS_WriteMessage PongMessage ''hello''])
 \<and> gettyWSConn_handlePing ''hello'' 77
       (message_adapter (ws_sock (tcp_sock 0 None) [] (Some (OtherError ''broken pipe'')))) []
     = (Returns (Some (OtherError ''broken pipe'')),
        message_adapter (ws_sock (tcp_sock 0 None) [] (Some (OtherError ''broken pipe''))),
        [WS_WriteMessage PongMessage ''hello''])"
proof -
  let ?ad = "\<lambda>e. message_adapter (ws_sock (tcp_sock 0 None) [] e)"
  have r: "r_err (ws_reply (ws_conn (?ad e)) tr ev) = e" for e tr ev
    by (simp add: sample_defs)
  have c1: "gettyWSConn_handlePing ''hello'' 77 (?ad None) []
              = (Returns None, updateActive 77 (?ad None), [WS_WriteMessage PongMessage ''hello''])"
    using handlePing_outcomes [of "''hello''" 77 "?ad None" "[]" True ErrCloseSent]
    by (simp add: r)
  have c2: "gettyWSConn_handlePing ''hello'' 77 (?ad (Some ErrCloseSent)) []
              = (Returns None, updateActive 77 (?ad (Some ErrCloseSent)),
                 [WS_WriteMessage PongMessage ''hello''])"
    using handlePing_outcomes [of "''hello''" 77 "?ad (Some ErrCloseSent)" "[]" True ErrCloseSent]
    by (simp add: r)
  have c3: "gettyWSConn_handlePing ''hello'' 77 (?ad (Some (NetError True True))) []
              = (Returns None, updateActive 77 (?ad (Some (NetError True True))),
                 [WS_WriteMessage PongMessage ''hello''])"
    using handlePing_outcomes [of "''hello''" 77 "?ad (Some (NetError True True))" "[]"
        True ErrCloseSent]
    by (simp add: r)
  have c4: "gettyWSConn_handlePing ''hello'' 77 (?ad (Some (NetError True False))) []
              = (Returns (Some (NetError True False)), ?ad (Some (NetError True False)),
                 [WS_WriteMessage PongMessage ''hello''])"
    using handlePing_outcomes [of "''hello''" 77 "?ad (Some (NetError True False))" "[]"
        True "NetError True False"]
    by (simp add: r)
  have c5: "gettyWSConn_handlePing ''hello'' 77 (?ad (Some (OtherError ''broken pipe''))) []
              = (Returns (Some (OtherError ''broken pipe'')),
                 ?ad (Some (OtherError ''broken pipe'')),
                 [WS_WriteMessage PongMessage ''hello''])"
    using handlePing_outcomes [of "''hello''" 77 "?ad (Some (OtherError ''broken pipe''))" "[]"
        True "OtherError ''broken pipe''"]
    by (simp add: r)
  from c1 c2 c3 c4 c5 show ?thesis by simp
qed

subsection \<open>Closing the message adapter\<close>

text \<open>
  C3 (as amended). When the websocket's underlying connection is a \<open>*net.TCPConn\<close>,
  \<open>close(waitSec)\<close> on the message adapter sends a close frame with the fixed payload
  \<open>bye-bye!!!\<close>, sets the linger option of the underlying connection to \<open>waitSec\<close>
  and then closes the websocket connection. It returns normally whatever the three
  calls answer: none of their errors reaches the caller.
\<close>

theorem ws_close_best_effort:
  assumes "is_TCPConn (UnderlyingConn (ws_conn this))"
  shows "gettyWSConn_close waitSec this tr
           = (Returns (), this,
              tr @ [WS_WriteMessage CloseMessage ''bye-bye!!!'',
                    Conn_SetLinger waitSec, WS_Close])"
  using assms by (simp add: gettyWSConn_close_def Let_def)

theorem ws_close_best_effort_witness:
  "is_TCPConn (UnderlyingConn (ws_conn
      (message_adapter (ws_sock (tcp_sock 0 (Some (OtherError ''closed'')))
         [] (Some ErrCloseSent)))))
 \<and> gettyWSConn_close 5
      (message_adapter (ws_sock (tcp_sock 0 (Some (OtherError ''closed''))) [] (Some ErrCloseSent)))
      []
     = (Returns (),
        message_adapter (ws_sock (tcp_sock 0 (Some (OtherError ''closed''))) [] (Some ErrCloseSent)),
        [WS_WriteMessage 8 ''bye-bye!!!'', Conn_SetLinger 5, WS_Close])"
proof -
  have h: "is_TCPConn (UnderlyingConn (ws_conn
      (message_adapter (ws_sock (tcp_sock 0 (Some (OtherError ''closed'')))
         [] (Some ErrCloseSent)))))"
    by (simp add: sample_defs)
  from h ws_close_best_effort [OF h, of 5 "[]"] show ?thesis
    by (simp add: CloseMessage_def)
qed

text \<open>
  C3 as stated fails. \<open>close(5)\<close> does not make the transport abandon linger: the
  linger option it sets is 5 seconds, the argument, and only \<open>close(0)\<close> asks for an
  immediate close that discards unsent data. Over an underlying connection that is
  not a \<open>*net.TCPConn\<close> the type assertion panics after the close frame is sent, and
  the panic does reach the caller.
\<close>

theorem ws_close_linger_counterexample:
  "snd (snd (gettyWSConn_close 5 (message_adapter (ws_sock (tcp_sock 0 None) [] None)) []))
     = [WS_WriteMessage 8 ''bye-bye!!!'', Conn_SetLinger 5, WS_Close]
 \<and> fst (gettyWSConn_close 0 (message_adapter (ws_sock unix_sock [] None)) [])
     = Panics InterfaceConversion
 \<and> snd (snd (gettyWSConn_close 0 (message_adapter (ws_sock unix_sock [] None)) []))
     = [WS_WriteMessage 8 ''bye-bye!!!'']"
  by (simp add: gettyWSConn_close_def Let_def CloseMessage_def sample_defs)

subsection \<open>Stream adapter counters\<close>

lemma gettyTCPConn_read_pkg:
  "readPkgCount (fst (snd (gettyTCPConn_read p this tr))) = readPkgCount this
 \<and> writePkgCount (fst (snd (gettyTCPConn_read p this tr))) = writePkgCount this"
  by (simp add: gettyTCPConn_read_def Let_def split: option.splits)

lemma gettyTCPConn_write_state:
  "fst (snd (gettyTCPConn_write p this tr))
     = this\<lparr>writeCount := writeCount this + of_nat (length p)\<rparr>"
  by (simp add: gettyTCPConn_write_def atomic_AddUint32_def Let_def split: option.splits)

lemma stream_calls_pkg:
  "readPkgCount (fst (stream_calls cs this tr)) = readPkgCount this
 \<and> writePkgCount (fst (stream_calls cs this tr)) = writePkgCount this"
proof (induction cs this tr rule: stream_calls.induct)
  case (1 this tr)
  show ?case by simp
next
  case (2 p cs this tr)
  obtain out this' tr' where r: "gettyTCPConn_read p this tr = (out, this', tr')"
    by (cases "gettyTCPConn_read p this tr") auto
  have "readPkgCount this' = readPkgCount this \<and> writePkgCount this' = writePkgCount this"
    using gettyTCPConn_read_pkg [of p this tr] by (simp add: r)
  with 2 r show ?case by simp
next
  case (3 p cs this tr)
  obtain out this' tr' where w: "gettyTCPConn_write p this tr = (out, this', tr')"
    by (cases "gettyTCPConn_write p this tr") auto
  have "readPkgCount this' = readPkgCount this \<and> writePkgCount this' = writePkgCount this"
    using gettyTCPConn_write_state [of p this tr] by (simp add: w)
  with 3 w show ?case by simp
qed

lemma stream_calls_three_writes:
  assumes "length p1 = 10" "length p2 = 20" "length p3 = 30"
  shows "writeCount (fst (stream_calls [Call_write p1, Call_write p2, Call_write p3] this tr))
           = writeCount this + 60"
proof -
  obtain o1 t1 r1 where w1: "gettyTCPConn_write p1 this tr = (o1, t1, r1)"
    by (cases "gettyTCPConn_write p1 this tr") auto
  obtain o2 t2 r2 where w2: "gettyTCPConn_write p2 t1 r1 = (o2, t2, r2)"
    by (cases "gettyTCPConn_write p2 t1 r1") auto
  obtain o3 t3 r3 where w3: "gettyTCPConn_write p3 t2 r2 = (o3, t3, r3)"
    by (cases "gettyTCPConn_write p3 t2 r2") auto
  have c1: "writeCount t1 = writeCount this + 10"
    using gettyTCPConn_write_state [of p1 this tr] assms(1) by (simp add: w1)
  have c2: "writeCount t2 = writeCount t1 + 20"
    using gettyTCPConn_write_state [of p2 t1 r1] assms(2) by (simp add: w2)
  have c3: "writeCount t3 = writeCount t2 + 30"
    using gettyTCPConn_write_state [of p3 t2 r2] assms(3) by (simp add: w3)
  show ?thesis by (simp add: w1 w2 w3 c1 c2 c3)
qed

text \<open>
  C6. On a stream adapter that holds its handle, \<open>read\<close> returns what the transport
  returned and adds the returned byte count to \<open>readCount\<close> (as a \<open>uint32\<close>) whether
  or not an error came with it. \<open>write\<close> adds \<open>len(p)\<close> to \<open>writeCount\<close> in every
  case, also when the transport call that follows does not take place, and with the
  handle present it returns the transport's error as it is. No sequence of \<open>read\<close>
  and \<open>write\<close> calls changes \<open>readPkgCount\<close> or \<open>writePkgCount\<close>. Three writes of
  10, 20 and 30 bytes add 60 to \<open>writeCount\<close>.
\<close>

theorem stream_counters:
  "(conn this = Some c \<longrightarrow>
      gettyTCPConn_read p this tr
        = (Returns (r_n (conn_reply c tr (Conn_Read p)), r_err (conn_reply c tr (Conn_Read p))),
           this\<lparr>readCount := readCount this + word_of_int (r_n (conn_reply c tr (Conn_Read p)))\<rparr>,
           tr @ [Conn_Read p]))
 \<and> fst (snd (gettyTCPConn_write p this tr))
      = this\<lparr>writeCount := writeCount this + of_nat (length p)\<rparr>
 \<and> (conn this = Some c \<longrightarrow>
      fst (gettyTCPConn_write p this tr) = Returns (r_err (conn_reply c tr (Conn_Write p)))
    \<and> snd (snd (gettyTCPConn_write p this tr)) = tr @ [Conn_Write p])
 \<and> readPkgCount (fst (stream_calls cs this tr)) = readPkgCount this
 \<and> writePkgCount (fst (stream_calls cs this tr)) = writePkgCount this
 \<and> (length p1 = 10 \<and> length p2 = 20 \<and> length p3 = 30 \<longrightarrow>
      writeCount (fst (stream_calls [Call_write p1, Call_write p2, Call_write p3] this tr))
        = writeCount this + 60)"
proof -
  have rd: "gettyTCPConn_read p this tr
        = (Returns (r_n (conn_reply c tr (Conn_Read p)), r_err (conn_reply c tr (Conn_Read p))),
           this\<lparr>readCount := readCount this + word_of_int (r_n (conn_reply c tr (Conn_Read p)))\<rparr>,
           tr @ [Conn_Read p])"
    if "conn this = Some c"
    using that by (simp add: gettyTCPConn_read_def atomic_AddUint32_def Let_def)
  have wr: "fst (gettyTCPConn_write p this tr) = Returns (r_err (conn_reply c tr (Conn_Write p)))
          \<and> snd (snd (gettyTCPConn_write p this tr)) = tr @ [Conn_Write p]"
    if "conn this = Some c"
    using that by (simp add: gettyTCPConn_write_def Let_def)
  from rd wr gettyTCPConn_write_state [of p this tr] stream_calls_pkg [of cs this tr]
    stream_calls_three_writes [of p1 p2 p3 this tr]
  show ?thesis by blast
qed

theorem stream_counters_witness:
  "gettyTCPConn_read ''12345678'' (stream_adapter (tcp_sock 5 (Some (OtherError ''reset'')))) []
     = (Returns (5, Some (OtherError ''reset'')),
        (stream_adapter (tcp_sock 5 (Some (OtherError ''reset''))))\<lparr>readCount := 5\<rparr>,
        [Conn_Read ''12345678''])
 \<and> gettyTCPConn_write ''12345678'' (stream_adapter (tcp_sock 3 (Some (OtherError ''reset'')))) []
     = (Returns (Some (OtherError ''reset'')),
        (stream_adapter (tcp_sock 3 (Some (OtherError ''reset''))))\<lparr>writeCount := 8\<rparr>,
        [Conn_Write ''12345678''])
 \<and> writeCount (fst (stream_calls
       [Call_write ''0123456789'', Call_write ''01234567890123456789'',
        Call_write ''012345678901234567890123456789'']
       (stream_adapter (tcp_sock 0 None)) [])) = 60
 \<and> readPkgCount (fst (stream_calls
       [Call_write ''0123456789'', Call_write ''01234567890123456789'',
        Call_write ''012345678901234567890123456789'']
       (stream_adapter (tcp_sock 0 None)) [])) = 0
 \<and> writePkgCount (fst (stream_calls
       [Call_write ''0123456789'', Call_write ''01234567890123456789'',
        Call_write ''012345678901234567890123456789'']
       (stream_adapter (tcp_sock 0 None)) [])) = 0"
proof -
  let ?r = "stream_adapter (tcp_sock 5 (Some (OtherError ''reset'')))"
  let ?w = "stream_adapter (tcp_sock 3 (Some (OtherError ''reset'')))"
  let ?a = "stream_adapter (tcp_sock 0 None)"
  let ?cs = "[Call_write ''0123456789'', Call_write ''01234567890123456789'',
              Call_write ''012345678901234567890123456789'']"
  have c1: "gettyTCPConn_read ''12345678'' ?r []
     = (Returns (5, Some (OtherError ''reset'')), ?r\<lparr>readCount := 5\<rparr>, [Conn_Read ''12345678''])"
    using stream_counters [of ?r "tcp_sock 5 (Some (OtherError ''reset''))" "''12345678''" "[]"]
    by (simp add: sample_defs)
  have c2: "gettyTCPConn_write ''12345678'' ?w []
     = (Returns (Some (OtherError ''reset'')), ?w\<lparr>writeCount := 8\<rparr>, [Conn_Write ''12345678''])"
    using stream_counters [of ?w "tcp_sock 3 (Some (OtherError ''reset''))" "''12345678''" "[]"]
    by (simp add: sample_defs prod_eq_iff)
  have c3: "writeCount (fst (stream_calls ?cs ?a [])) = 60
          \<and> readPkgCount (fst (stream_calls ?cs ?a [])) = 0
          \<and> writePkgCount (fst (stream_calls ?cs ?a [])) = 0"
    using stream_counters [of ?a "tcp_sock 0 None" "[]" "[]" ?cs
        "''0123456789''" "''01234567890123456789''" "''012345678901234567890123456789''"]
    by (simp add: stream_adapter_def)
  from c1 c2 c3 show ?thesis by simp
qed

subsection \<open>Message adapter read\<close>

lemma IsUnexpectedCloseError_going_away:
  "IsUnexpectedCloseError e [CloseGoingAway]
     = (case e of CloseError code txt \<Rightarrow> code \<noteq> 1001 | _ \<Rightarrow> False)"
  by (simp add: IsUnexpectedCloseError_def CloseGoingAway_def
      split: go_error.splits)

lemma gettyWSConn_read_ok:
  assumes "gettyWSConn_read this tr = (Returns (b, None), this', tr')"
  shows "this' = this\<lparr>readPkgCount := readPkgCount this + 1\<rparr>"
  using assms
  by (auto simp: gettyWSConn_read_def atomic_AddUint32_def Let_def split: option.splits)

text \<open>
  C7. A \<open>read\<close> on the message adapter whose transport call succeeds returns the
  payload with a nil error and adds exactly 1 to \<open>readPkgCount\<close>; no \<open>read\<close>
  changes \<open>readCount\<close>. When the transport call fails with \<open>e\<close>, the adapter is
  unchanged, the payload and \<open>e\<close> are returned, and a warning is logged exactly when
  \<open>e\<close> is an unexpected close error (a close error other than going-away); the
  error is returned with or without the warning. Three successful reads in a row add
  3 to \<open>readPkgCount\<close> and leave \<open>readCount\<close> as it was, whatever the payloads.
\<close>

theorem ws_read_counts:
  "(r_err (ws_reply (ws_conn this) tr WS_ReadMessage) = None \<longrightarrow>
      gettyWSConn_read this tr
        = (Returns (r_payload (ws_reply (ws_conn this) tr WS_ReadMessage), None),
           this\<lparr>readPkgCount := readPkgCount this + 1\<rparr>,
           tr @ [WS_ReadMessage]))
 \<and> readCount (fst (snd (gettyWSConn_read this tr))) = readCount this
 \<and> (r_err (ws_reply (ws_conn this) tr WS_ReadMessage) = Some e \<longrightarrow>
      gettyWSConn_read this tr
        = (Returns (r_payload (ws_reply (ws_conn this) tr WS_ReadMessage), Some e),
           this,
           tr @ [WS_ReadMessage]
              @ (if IsUnexpectedCloseError e [CloseGoingAway]
                 then [Log_Warn ''websocket unexpected close error: %v'' e] else [])))
 \<and> (gettyWSConn_read this tr = (Returns (b1, None), this1, tr1)
      \<and> gettyWSConn_read this1 tr1 = (Returns (b2, None), this2, tr2)
      \<and> gettyWSConn_read this2 tr2 = (Returns (b3, None), this3, tr3)
     \<longrightarrow> readPkgCount this3 = readPkgCount this + 3 \<and> readCount this3 = readCount this)"
proof -
  have ok: "gettyWSConn_read this tr
        = (Returns (r_payload (ws_reply (ws_conn this) tr WS_ReadMessage), None),
           this\<lparr>readPkgCount := readPkgCount this + 1\<rparr>,
           tr @ [WS_ReadMessage])"
    if "r_err (ws_reply (ws_conn this) tr WS_ReadMessage) = None"
    using that by (simp add: gettyWSConn_read_def atomic_AddUint32_def Let_def)
  have rc: "readCount (fst (snd (gettyWSConn_read this tr))) = readCount this"
    by (simp add: gettyWSConn_read_def Let_def split: option.splits)
  have ko: "gettyWSConn_read this tr
        = (Returns (r_payload (ws_reply (ws_conn this) tr WS_ReadMessage), Some e),
           this,
           tr @ [WS_ReadMessage]
              @ (if IsUnexpectedCloseError e [CloseGoingAway]
                 then [Log_Warn ''websocket unexpected close error: %v'' e] else []))"
    if "r_err (ws_reply (ws_conn this) tr WS_ReadMessage) = Some e"
    using that by (simp add: gettyWSConn_read_def Let_def)
  have three: "readPkgCount this3 = readPkgCount this + 3 \<and> readCount this3 = readCount this"
    if "gettyWSConn_read this tr = (Returns (b1, None), this1, tr1)"
       "gettyWSConn_read this1 tr1 = (Returns (b2, None), this2, tr2)"
       "gettyWSConn_read this2 tr2 = (Returns (b3, None), this3, tr3)"
    using gettyWSConn_read_ok [OF that(1)] gettyWSConn_read_ok [OF that(2)]
      gettyWSConn_read_ok [OF that(3)]
    by simp
  from ok rc ko three show ?thesis by blast
qed

theorem ws_read_counts_witness:
  "gettyWSConn_read (message_adapter (ws_sock (tcp_sock 0 None) ''abc'' None)) []
     = (Returns (''abc'', None),
        (message_adapter (ws_sock (tcp_sock 0 None) ''abc'' None))\<lparr>readPkgCount := 1\<rparr>,
        [WS_ReadMessage])
 \<and> gettyWSConn_read
       ((message_adapter (ws_sock (tcp_sock 0 None) ''abc'' None))\<lparr>readPkgCount := 1\<rparr>)
       [WS_ReadMessage]
     = (Returns (''abc'', None),
        (message_adapter (ws_sock (tcp_sock 0 None) ''abc'' None))\<lparr>readPkgCount := 2\<rparr>,
        [WS_ReadMessage, WS_ReadMessage])
 \<and> gettyWSConn_read
       ((message_adapter (ws_sock (tcp_sock 0 None) ''abc'' None))\<lparr>readPkgCount := 2\<rparr>)
       [WS_ReadMessage, WS_ReadMessage]
     = (Returns (''abc'', None),
        (message_adapter (ws_sock (tcp_sock 0 None) ''abc'' None))\<lparr>readPkgCount := 3\<rparr>,
        [WS_ReadMessage, WS_ReadMessage, WS_ReadMessage])
 \<and> readPkgCount
       ((message_adapter (ws_sock (tcp_sock 0 None) ''abc'' None))\<lparr>readPkgCount := 3\<rparr>) = 3
 \<and> readCount
       ((message_adapter (ws_sock (tcp_sock 0 None) ''abc'' None))\<lparr>readPkgCount := 3\<rparr>) = 0
 \<and> gettyWSConn_read
       (message_adapter (ws_sock (tcp_sock 0 None) [] (Some (CloseError 1006 ''eof'')))) []
     = (Returns ([], Some (CloseError 1006 ''eof'')),
        message_adapter (ws_sock (tcp_sock 0 None) [] (Some (CloseError 1006 ''eof''))),
        [WS_ReadMessage,
         Log_Warn ''websocket unexpected close error: %v'' (CloseError 1006 ''eof'')])
 \<and> gettyWSConn_read
       (message_adapter (ws_sock (tcp_sock 0 None) [] (Some (CloseError 1001 ''bye'')))) []
     = (Returns ([], Some (CloseError 1001 ''bye'')),
        message_adapter (ws_sock (tcp_sock 0 None) [] (Some (CloseError 1001 ''bye''))),
        [WS_ReadMessage])"
proof -
  let ?a = "message_adapter (ws_sock (tcp_sock 0 None) ''abc'' None)"
  let ?f = "\<lambda>e. message_adapter (ws_sock (tcp_sock 0 None) [] (Some e))"
  have ra: "ws_reply (ws_conn (?a\<lparr>readPkgCount := n\<rparr>)) tr ev
              = \<lparr>r_n = 2, r_payload = ''abc'', r_err = None\<rparr>" for n tr ev
    by (simp add: sample_defs)
  have ra0: "ws_reply (ws_conn ?a) tr ev = \<lparr>r_n = 2, r_payload = ''abc'', r_err = None\<rparr>"
    for tr ev
    by (simp add: sample_defs)
  have rf: "ws_reply (ws_conn (?f e)) tr ev = \<lparr>r_n = 2, r_payload = [], r_err = Some e\<rparr>"
    for e tr ev
    by (simp add: sample_defs)
  have p0: "readPkgCount ?a = 0" and q0: "readCount ?a = 0"
    by (simp_all add: sample_defs)
  have s1: "gettyWSConn_read ?a [] = (Returns (''abc'', None), ?a\<lparr>readPkgCount := 1\<rparr>,
              [WS_ReadMessage])"
    using ws_read_counts [where this = ?a and tr = "[]", THEN conjunct1]
    by (simp add: ra0 p0)
  have s2: "gettyWSConn_read (?a\<lparr>readPkgCount := 1\<rparr>) [WS_ReadMessage]
              = (Returns (''abc'', None), ?a\<lparr>readPkgCount := 2\<rparr>,
                 [WS_ReadMessage, WS_ReadMessage])"
    using ws_read_counts [where this = "?a\<lparr>readPkgCount := 1\<rparr>" and tr = "[WS_ReadMessage]",
        THEN conjunct1]
    by (simp add: ra0)
  have s3: "gettyWSConn_read (?a\<lparr>readPkgCount := 2\<rparr>) [WS_ReadMessage, WS_ReadMessage]
              = (Returns (''abc'', None), ?a\<lparr>readPkgCount := 3\<rparr>,
                 [WS_ReadMessage, WS_ReadMessage, WS_ReadMessage])"
    using ws_read_counts [where this = "?a\<lparr>readPkgCount := 2\<rparr>"
        and tr = "[WS_ReadMessage, WS_ReadMessage]", THEN conjunct1]
    by (simp add: ra0)
  have s4: "readPkgCount (?a\<lparr>readPkgCount := 3\<rparr>) = 3 \<and> readCount (?a\<lparr>readPkgCount := 3\<rparr>) = 0"
    using ws_read_counts [where this = ?a and tr = "[]"
        and ?b1.0 = "''abc''" and ?this1.0 = "?a\<lparr>readPkgCount := 1\<rparr>"
        and ?tr1.0 = "[WS_ReadMessage]"
        and ?b2.0 = "''abc''" and ?this2.0 = "?a\<lparr>readPkgCount := 2\<rparr>"
        and ?tr2.0 = "[WS_ReadMessage, WS_ReadMessage]"
        and ?b3.0 = "''abc''" and ?this3.0 = "?a\<lparr>readPkgCount := 3\<rparr>"
        and ?tr3.0 = "[WS_ReadMessage, WS_ReadMessage, WS_ReadMessage]",
        THEN conjunct2, THEN conjunct2, THEN conjunct2]
      s1 s2 s3
    by (simp add: p0 q0)
  have s5: "gettyWSConn_read (?f (CloseError 1006 ''eof'')) []
     = (Returns ([], Some (CloseError 1006 ''eof'')), ?f (CloseError 1006 ''eof''),
        [WS_ReadMessage,
         Log_Warn ''websocket unexpected close error: %v'' (CloseError 1006 ''eof'')])"
    using ws_read_counts [where this = "?f (CloseError 1006 ''eof'')" and tr = "[]"
        and e = "CloseError 1006 ''eof''", THEN conjunct2, THEN conjunct2, THEN conjunct1]
    by (simp add: rf IsUnexpectedCloseError_going_away)
  have s6: "gettyWSConn_read (?f (CloseError 1001 ''bye'')) []
     = (Returns ([], Some (CloseError 1001 ''bye'')), ?f (CloseError 1001 ''bye''),
        [WS_ReadMessage])"
    using ws_read_counts [where this = "?f (CloseError 1001 ''bye'')" and tr = "[]"
        and e = "CloseError 1001 ''bye''", THEN conjunct2, THEN conjunct2, THEN conjunct1]
    by (simp add: rf IsUnexpectedCloseError_going_away)
  from s1 s2 s3 s4 s5 s6 show ?thesis by simp
qed

subsection \<open>Stream adapter close\<close>

lemma close_calls_closed:
  "conn this = None
     \<Longrightarrow> close_calls ws this tr = (replicate (length ws) (Returns ()), this, tr)"
  by (induction ws) (simp_all add: gettyTCPConn_close_def)

text \<open>
  C8 (as amended). For a stream adapter whose handle is a \<open>*net.TCPConn\<close>, the
  first \<open>close(waitSec)\<close> sets the linger option to \<open>waitSec\<close>, closes the transport
  and clears the handle; every later \<open>close\<close>, with any argument, returns normally
  and touches neither the adapter nor the transport. Over the whole sequence the
  transport is closed exactly once.
\<close>

theorem tcp_close_idempotent:
  assumes "conn this = Some c" and "is_TCPConn c"
  shows "gettyTCPConn_close waitSec this tr
           = (Returns (), this\<lparr>conn := None\<rparr>, tr @ [Conn_SetLinger waitSec, Conn_Close])
       \<and> close_calls rest (this\<lparr>conn := None\<rparr>) tr'
           = (replicate (length rest) (Returns ()), this\<lparr>conn := None\<rparr>, tr')
       \<and> close_calls (waitSec # rest) this tr
           = (replicate (Suc (length rest)) (Returns ()), this\<lparr>conn := None\<rparr>,
              tr @ [Conn_SetLinger waitSec, Conn_Close])
       \<and> count_list (snd (snd (close_calls (waitSec # rest) this tr))) Conn_Close
           = Suc (count_list tr Conn_Close)"
proof -
  have first: "gettyTCPConn_close waitSec this tr
           = (Returns (), this\<lparr>conn := None\<rparr>, tr @ [Conn_SetLinger waitSec, Conn_Close])"
    using assms by (simp add: gettyTCPConn_close_def)
  have later: "close_calls rest (this\<lparr>conn := None\<rparr>) tr'
           = (replicate (length rest) (Returns ()), this\<lparr>conn := None\<rparr>, tr')" for tr'
    by (rule close_calls_closed) simp
  have all: "close_calls (waitSec # rest) this tr
           = (replicate (Suc (length rest)) (Returns ()), this\<lparr>conn := None\<rparr>,
              tr @ [Conn_SetLinger waitSec, Conn_Close])"
    by (simp add: first later)
  have cnt: "count_list (snd (snd (close_calls (waitSec # rest) this tr))) Conn_Close
           = Suc (count_list tr Conn_Close)"
    by (simp only: all snd_conv) simp
  from first later all cnt show ?thesis by blast
qed

theorem tcp_close_idempotent_witness:
  "conn (stream_adapter (tcp_sock 0 None)) = Some (tcp_sock 0 None)
 \<and> is_TCPConn (tcp_sock 0 None)
 \<and> close_calls [3, 0, 7] (stream_adapter (tcp_sock 0 None)) []
     = ([Returns (), Returns (), Returns ()],
        (stream_adapter (tcp_sock 0 None))\<lparr>conn := None\<rparr>,
        [Conn_SetLinger 3, Conn_Close])
 \<and> count_list (snd (snd (close_calls [3, 0, 7] (stream_adapter (tcp_sock 0 None)) [])))
      Conn_Close = 1"
proof -
  have h1: "conn (stream_adapter (tcp_sock 0 None)) = Some (tcp_sock 0 None)"
    by (simp add: stream_adapter_def)
  have h2: "is_TCPConn (tcp_sock 0 None)"
    by (simp add: tcp_sock_def)
  from h1 h2 tcp_close_idempotent [OF h1 h2, of 3 "[]" "[0, 7]"] show ?thesis
    by (simp add: numeral_3_eq_3)
qed

text \<open>
  C8 as stated fails for an adapter built over a handle that is not a
  \<open>*net.TCPConn\<close>: the constructor accepts the handle, and then the first \<open>close\<close>
  and the second both panic, the transport is never closed and the handle is never
  cleared.
\<close>

theorem tcp_close_non_tcp_counterexample:
  "close_calls [0, 0] (stream_adapter unix_sock) []
     = ([Panics InterfaceConversion, Panics InterfaceConversion], stream_adapter unix_sock, [])
 \<and> conn (stream_adapter unix_sock) = Some unix_sock
 \<and> newGettyTCPConn (Some unix_sock) 0 = (Returns (stream_adapter unix_sock), 1)"
  by (simp add: gettyTCPConn_close_def stream_adapter_def unix_sock_def newGettyTCPConn_def
      connID_next_def atomic_AddUint32_def)

subsection \<open>The type assertion in close\<close>

text \<open>
  C10. The stream constructor accepts a handle that is not a \<open>*net.TCPConn\<close>; the
  first \<open>close\<close> on the adapter it returns panics on the type assertion, before
  \<open>SetLinger\<close> and \<open>Close\<close>: no transport call is made and the handle stays. The
  message adapter's \<open>close\<close> makes the same assertion on the websocket's underlying
  connection and panics after sending the close frame, without closing.
\<close>

theorem close_asserts_TCPConn:
  "(\<not> is_TCPConn k \<longrightarrow>
      (case newGettyTCPConn (Some k) connID of
         (Returns a, connID') \<Rightarrow>
           conn a = Some k
         \<and> gettyTCPConn_close waitSec a tr = (Panics InterfaceConversion, a, tr)
       | (Panics pn, connID') \<Rightarrow> False))
 \<and> (\<not> is_TCPConn (UnderlyingConn (ws_conn this)) \<longrightarrow>
      gettyWSConn_close waitSec this tr
        = (Panics InterfaceConversion, this,
           tr @ [WS_WriteMessage CloseMessage ''bye-bye!!!'']))"
  by (simp add: newGettyTCPConn_def gettyTCPConn_close_def gettyWSConn_close_def Let_def
      split: prod.splits)

theorem close_asserts_TCPConn_witness:
  "\<not> is_TCPConn unix_sock
 \<and> newGettyTCPConn (Some unix_sock) 0 = (Returns (stream_adapter unix_sock), 1)
 \<and> gettyTCPConn_close 0 (stream_adapter unix_sock) []
     = (Panics InterfaceConversion, stream_adapter unix_sock, [])
 \<and> \<not> is_TCPConn (UnderlyingConn (ws_conn (message_adapter (ws_sock unix_sock [] None))))
 \<and> gettyWSConn_close 0 (message_adapter (ws_sock unix_sock [] None)) []
     = (Panics InterfaceConversion, message_adapter (ws_sock unix_sock [] None),
        [WS_WriteMessage 8 ''bye-bye!!!''])"
proof -
  have h1: "\<not> is_TCPConn unix_sock"
    by (simp add: unix_sock_def)
  have h2: "\<not> is_TCPConn (UnderlyingConn (ws_conn (message_adapter (ws_sock unix_sock [] None))))"
    by (simp add: sample_defs)
  have n: "newGettyTCPConn (Some unix_sock) 0 = (Returns (stream_adapter unix_sock), 1)"
    by (rule newGettyTCPConn_first)
  from h1 h2 n
    close_asserts_TCPConn [where k = unix_sock and connID = 0 and waitSec = 0 and tr = "[]"
      and this = "message_adapter (ws_sock unix_sock [] None)"]
  show ?thesis
    by (simp add: CloseMessage_def)
qed

end
